theory Spec2Isabelle
  imports Main "HOL-Library.Sublist"
begin

section \<open>Values and exceptions\<close>

text \<open>
  The values \<^verbatim>\<open>json.loads\<close> produces: Python's \<^verbatim>\<open>None\<close>, \<^verbatim>\<open>bool\<close>, \<^verbatim>\<open>int\<close>,
  \<^verbatim>\<open>str\<close>, \<^verbatim>\<open>list\<close> and \<^verbatim>\<open>dict\<close> (insertion ordered). JSON numbers with a fraction
  or an exponent (Python floats) are not represented.
\<close>

datatype json =
    JNull
  | JBool bool
  | JNum int
  | JStr string
  | JArr "json list"
  | JObj "(string \<times> json) list"

text \<open>
  Python's truth value of an object, which is what \<^verbatim>\<open>if parsed_data:\<close> and
  \<^verbatim>\<open>if not formatted_json_data:\<close> test.
\<close>

fun truthy :: "json \<Rightarrow> bool" where
  "truthy JNull = False"
| "truthy (JBool b) = b"
| "truthy (JNum n) = (n \<noteq> 0)"
| "truthy (JStr s) = (s \<noteq> [])"
| "truthy (JArr xs) = (xs \<noteq> [])"
| "truthy (JObj kvs) = (kvs \<noteq> [])"

text \<open>
  Exceptions as values. \<open>HTTPException\<close> carries the status code and the detail,
  \<open>JSONDecodeError\<close> is the one class \<^verbatim>\<open>_parse_cached_data\<close> catches by name, and
  \<open>Exception\<close> stands for every other subclass of Python's \<^verbatim>\<open>Exception\<close> (a Redis
  connection error, a pandas \<^verbatim>\<open>ValueError\<close>, a \<^verbatim>\<open>UnicodeDecodeError\<close>, ...), named
  by its class.
\<close>

datatype exn =
    HTTPException int string
  | JSONDecodeError
  | Exception string

definition HTTP_200_OK :: int where
  "HTTP_200_OK = 200"

definition HTTP_400_BAD_REQUEST :: int where
  "HTTP_400_BAD_REQUEST = 400"

definition HTTP_404_NOT_FOUND :: int where
  "HTTP_404_NOT_FOUND = 404"

definition HTTP_422_UNPROCESSABLE_ENTITY :: int where
  "HTTP_422_UNPROCESSABLE_ENTITY = 422"

text \<open>
  Modelled from the spec: the schema class \<^verbatim>\<open>ParseTasksResponse\<close> of
  \<^verbatim>\<open>src.core.schemas.tasks\<close> is not among the sources. The spec's Response Envelope
  is a status code, a detail string and a payload; the field names are those of the
  constructor calls in \<^verbatim>\<open>excel.py\<close> and \<^verbatim>\<open>tasks.py\<close>.
\<close>

record ParseTasksResponse =
  status :: int
  details :: string
  data :: json

section \<open>String literals of the source\<close>

text \<open>
  The Russian literals are kept as their UTF-8 bytes. \<open>sheet_name\<close> is the sheet
  "Characters"; \<open>details_source\<close> reads "Data obtained directly from the Excel file.",
  \<open>details_cache\<close> "Data obtained from the cache.", \<open>detail_no_table\<close> "Such a table
  does not exist" and \<open>detail_format_error\<close> "Error while formatting the data of the
  table".
\<close>

definition sheet_name :: string where
  "sheet_name =
    [CHR 0xD0, CHR 0x9F, CHR 0xD0, CHR 0xB5, CHR 0xD1, CHR 0x80, CHR 0xD1, CHR 0x81,
     CHR 0xD0, CHR 0xBE, CHR 0xD0, CHR 0xBD, CHR 0xD0, CHR 0xB0, CHR 0xD0, CHR 0xB6,
     CHR 0xD0, CHR 0xB8]"

definition details_source :: string where
  "details_source =
    [CHR 0xD0, CHR 0x94, CHR 0xD0, CHR 0xB0, CHR 0xD0, CHR 0xBD, CHR 0xD0, CHR 0xBD,
     CHR 0xD1, CHR 0x8B, CHR 0xD0, CHR 0xB5, CHR '' '', CHR 0xD0, CHR 0xBF, CHR 0xD0,
     CHR 0xBE, CHR 0xD0, CHR 0xBB, CHR 0xD1, CHR 0x83, CHR 0xD1, CHR 0x87, CHR 0xD0,
     CHR 0xB5, CHR 0xD0, CHR 0xBD, CHR 0xD1, CHR 0x8B, CHR '' '', CHR 0xD0, CHR 0xBD,
     CHR 0xD0, CHR 0xB0, CHR 0xD0, CHR 0xBF, CHR 0xD1, CHR 0x80, CHR 0xD1, CHR 0x8F,
     CHR 0xD0, CHR 0xBC, CHR 0xD1, CHR 0x83, CHR 0xD1, CHR 0x8E, CHR '' '', CHR 0xD0,
     CHR 0xB8, CHR 0xD0, CHR 0xB7, CHR '' '', CHR ''E'', CHR ''x'', CHR ''c'', CHR ''e'',
     CHR ''l'', CHR '' '', CHR 0xD1, CHR 0x84, CHR 0xD0, CHR 0xB0, CHR 0xD0, CHR 0xB9,
     CHR 0xD0, CHR 0xBB, CHR 0xD0, CHR 0xB0, CHR ''.'']"

definition details_cache :: string where
  "details_cache =
    [CHR 0xD0, CHR 0x94, CHR 0xD0, CHR 0xB0, CHR 0xD0, CHR 0xBD, CHR 0xD0, CHR 0xBD,
     CHR 0xD1, CHR 0x8B, CHR 0xD0, CHR 0xB5, CHR '' '', CHR 0xD0, CHR 0xBF, CHR 0xD0,
     CHR 0xBE, CHR 0xD0, CHR 0xBB, CHR 0xD1, CHR 0x83, CHR 0xD1, CHR 0x87, CHR 0xD0,
     CHR 0xB5, CHR 0xD0, CHR 0xBD, CHR 0xD1, CHR 0x8B, CHR '' '', CHR 0xD0, CHR 0xB8,
     CHR 0xD0, CHR 0xB7, CHR '' '', CHR 0xD0, CHR 0xBA, CHR 0xD0, CHR 0xB5, CHR 0xD1,
     CHR 0x88, CHR 0xD0, CHR 0xB0, CHR ''.'']"

definition detail_no_table :: string where
  "detail_no_table =
    [CHR 0xD0, CHR 0xA2, CHR 0xD0, CHR 0xB0, CHR 0xD0, CHR 0xBA, CHR 0xD0, CHR 0xBE,
     CHR 0xD0, CHR 0xB9, CHR '' '', CHR 0xD1, CHR 0x82, CHR 0xD0, CHR 0xB0, CHR 0xD0,
     CHR 0xB1, CHR 0xD0, CHR 0xBB, CHR 0xD0, CHR 0xB8, CHR 0xD1, CHR 0x86, CHR 0xD1,
     CHR 0x8B, CHR '' '', CHR 0xD0, CHR 0xBD, CHR 0xD0, CHR 0xB5, CHR '' '', CHR 0xD1,
     CHR 0x81, CHR 0xD1, CHR 0x83, CHR 0xD1, CHR 0x89, CHR 0xD0, CHR 0xB5, CHR 0xD1,
     CHR 0x81, CHR 0xD1, CHR 0x82, CHR 0xD0, CHR 0xB2, CHR 0xD1, CHR 0x83, CHR 0xD0,
     CHR 0xB5, CHR 0xD1, CHR 0x82]"

definition detail_format_error :: string where
  "detail_format_error =
    [CHR 0xD0, CHR 0x9E, CHR 0xD1, CHR 0x88, CHR 0xD0, CHR 0xB8, CHR 0xD0, CHR 0xB1,
     CHR 0xD0, CHR 0xBA, CHR 0xD0, CHR 0xB0, CHR '' '', CHR 0xD0, CHR 0xBF, CHR 0xD1,
     CHR 0x80, CHR 0xD0, CHR 0xB8, CHR '' '', CHR 0xD1, CHR 0x84, CHR 0xD0, CHR 0xBE,
     CHR 0xD1, CHR 0x80, CHR 0xD0, CHR 0xBC, CHR 0xD0, CHR 0xB0, CHR 0xD1, CHR 0x82,
     CHR 0xD0, CHR 0xB8, CHR 0xD1, CHR 0x80, CHR 0xD0, CHR 0xBE, CHR 0xD0, CHR 0xB2,
     CHR 0xD0, CHR 0xB0, CHR 0xD0, CHR 0xBD, CHR 0xD0, CHR 0xB8, CHR 0xD0, CHR 0xB8,
     CHR '' '', CHR 0xD0, CHR 0xB4, CHR 0xD0, CHR 0xB0, CHR 0xD0, CHR 0xBD, CHR 0xD0,
     CHR 0xBD, CHR 0xD1, CHR 0x8B, CHR 0xD1, CHR 0x85, CHR '' '', CHR 0xD0, CHR 0xB8,
     CHR 0xD0, CHR 0xB7, CHR '' '', CHR 0xD1, CHR 0x82, CHR 0xD0, CHR 0xB0, CHR 0xD0,
     CHR 0xB1, CHR 0xD0, CHR 0xBB, CHR 0xD0, CHR 0xB8, CHR 0xD1, CHR 0x86, CHR 0xD1,
     CHR 0x8B]"

definition detail_unprocessable :: string where
  "detail_unprocessable = ''Unprocessable content''"

definition file_path :: string where
  "file_path = ''PlayIT.xlsx''"

section \<open>The libraries the services call\<close>

text \<open>
  A pandas frame as \<^verbatim>\<open>read_excel\<close> returns it: the column labels and the rows of
  cells, for any type \<open>'c\<close> of cell values. \<^verbatim>\<open>DataFrame.empty\<close> holds when either
  axis has length zero.
\<close>

record 'c dataframe =
  columns :: "string list"
  rows :: "'c list list"

definition df_empty :: "'c dataframe \<Rightarrow> bool" where
  "df_empty df = (columns df = [] \<or> rows df = [])"

text \<open>
  pandas and the \<^verbatim>\<open>json\<close> module are not code of the repository: the services
  receive them as a record of functions, each returning its value or the exception it
  raises. \<open>read_excel\<close> takes the path and the sheet name, \<open>to_json\<close> is
  \<^verbatim>\<open>DataFrame.to_json(orient="records")\<close>, \<open>json_loads\<close> reads the bytes Redis
  returns or the text pandas wrote, \<open>json_dumps\<close> writes a value.
\<close>

record 'c libs =
  read_excel :: "string \<Rightarrow> string \<Rightarrow> exn + 'c dataframe"
  to_json :: "'c dataframe \<Rightarrow> exn + string"
  json_loads :: "string \<Rightarrow> exn + json"
  json_dumps :: "json \<Rightarrow> exn + string"

text \<open>
  The records orientation of a frame, as a value: one object per row, in row order,
  pairing each column label with the rendering \<open>enc\<close> of the row's cell.
\<close>

definition records :: "('c \<Rightarrow> json) \<Rightarrow> 'c dataframe \<Rightarrow> json" where
  "records enc df = JArr (map (\<lambda>r. JObj (zip (columns df) (map enc r))) (rows df))"

text \<open>
  What the documentation of the two libraries promises and the theorems below assume
  where they need it: pandas writes a frame as text that \<^verbatim>\<open>json.loads\<close> reads back as
  the frame's records, and \<^verbatim>\<open>json.dumps\<close> writes a value as non-empty text that
  \<^verbatim>\<open>json.loads\<close> reads back as the same value.
\<close>

definition pandas_writes_records :: "'c libs \<Rightarrow> ('c \<Rightarrow> json) \<Rightarrow> 'c dataframe \<Rightarrow> bool" where
  "pandas_writes_records libs enc df =
     (case to_json libs df of
        Inl e \<Rightarrow> False
      | Inr json_data \<Rightarrow> json_loads libs json_data = Inr (records enc df))"

definition json_round_trip :: "'c libs \<Rightarrow> json \<Rightarrow> bool" where
  "json_round_trip libs v =
     (case json_dumps libs v of
        Inl e \<Rightarrow> False
      | Inr serialized \<Rightarrow> serialized \<noteq> [] \<and> json_loads libs serialized = Inr v)"

section \<open>config.py\<close>

record RedisSettings =
  REDIS_HOST :: string
  REDIS_PORT :: int
  REDIS_DB :: int
  CACHE_KEY :: string
  CACHE_EXPIRE :: int

text \<open>The defaults of \<^verbatim>\<open>RedisSettings\<close>, taken when the environment sets none.\<close>

definition default_redis_settings :: RedisSettings where
  "default_redis_settings =
     \<lparr>REDIS_HOST = ''localhost'', REDIS_PORT = 6379, REDIS_DB = 0,
      CACHE_KEY = ''tasks:all'', CACHE_EXPIRE = 21600\<rparr>"

section \<open>The cache store\<close>

text \<open>
  The world a call runs in: the Redis store, each key holding its value and the
  expiry it was set with, and the log of the calls made so far to Redis and to the
  source reader. The log is not state of the program; it is kept to say which calls a
  request makes. Time does not pass: an entry stays until it is deleted or overwritten,
  so two requests in a row are two requests within the expiry of the entry.
\<close>

datatype event =
    RedisGet string
  | RedisDelete string
  | RedisSet string string int
  | ParseShop

record world =
  store :: "string \<rightharpoonup> string \<times> int"
  trace :: "event list"

definition log :: "event \<Rightarrow> world \<Rightarrow> world" where
  "log e w = w\<lparr>trace := trace w @ [e]\<rparr>"

text \<open>
  The behaviour of the store during one request: for each of the three operations,
  the exception it raises, if it raises one.
\<close>

record faults =
  get_fault :: "exn option"
  delete_fault :: "exn option"
  set_fault :: "exn option"

definition no_faults :: faults where
  "no_faults = \<lparr>get_fault = None, delete_fault = None, set_fault = None\<rparr>"

text \<open>
  Modelled from the spec: \<^verbatim>\<open>src.core.redis_client\<close> is not among the sources. The
  spec's Cache Store interface is \<^verbatim>\<open>get(key) -> bytes|absent\<close>,
  \<^verbatim>\<open>set(key, bytes, ttl_seconds) -> ok\<close> and \<^verbatim>\<open>delete(key) -> ok\<close>. An operation that
  raises leaves the store as it was.
\<close>

definition redis_get :: "faults \<Rightarrow> string \<Rightarrow> world \<Rightarrow> (exn + string option) \<times> world" where
  "redis_get f key w =
     (case get_fault f of
        Some e \<Rightarrow> (Inl e, log (RedisGet key) w)
      | None \<Rightarrow> (Inr (map_option fst (store w key)), log (RedisGet key) w))"

definition redis_delete :: "faults \<Rightarrow> string \<Rightarrow> world \<Rightarrow> (exn + unit) \<times> world" where
  "redis_delete f key w =
     (case delete_fault f of
        Some e \<Rightarrow> (Inl e, log (RedisDelete key) w)
      | None \<Rightarrow> (Inr (), log (RedisDelete key) (w\<lparr>store := (store w)(key := None)\<rparr>)))"

definition redis_set :: "faults \<Rightarrow> string \<Rightarrow> string \<Rightarrow> int \<Rightarrow> world \<Rightarrow> (exn + unit) \<times> world" where
  "redis_set f key v ex w =
     (case set_fault f of
        Some e \<Rightarrow> (Inl e, log (RedisSet key v ex) w)
      | None \<Rightarrow> (Inr (), log (RedisSet key v ex) (w\<lparr>store := (store w)(key \<mapsto> (v, ex))\<rparr>)))"

section \<open>excel.py\<close>

text \<open>
  Python's \<^verbatim>\<open>a or b\<close> on strings is \<open>a\<close> unless \<open>a\<close> is empty, and
  \<^verbatim>\<open>s.endswith(t)\<close> is \<open>suffix t s\<close>.
\<close>

definition py_or :: "string \<Rightarrow> string \<Rightarrow> string" where
  "py_or a b = (if a \<noteq> [] then a else b)"

definition endswith :: "string \<Rightarrow> string \<Rightarrow> bool" where
  "endswith s t = suffix t s"

text \<open>
  \<^verbatim>\<open>ExcelService.parse_shop\<close>, with the path it checks and opens as an argument:
  the source binds it to the literal \<open>file_path\<close> in its first statement, as
  \<open>parse_shop\<close> does.
\<close>

definition parse_shop_at :: "string \<Rightarrow> 'c libs \<Rightarrow> exn + ParseTasksResponse" where
  "parse_shop_at path libs =
     (if \<not> endswith path (py_or ''.xlsx'' ''.xls'') then
        Inl (HTTPException HTTP_422_UNPROCESSABLE_ENTITY detail_unprocessable)
      else
        (case read_excel libs path sheet_name of
           Inl e \<Rightarrow> Inl e
         | Inr exel_shop_df \<Rightarrow>
             if df_empty exel_shop_df then
               Inl (HTTPException HTTP_404_NOT_FOUND detail_no_table)
             else
               (case to_json libs exel_shop_df of
                  Inl e \<Rightarrow> Inl e
                | Inr json_data \<Rightarrow>
                    (case json_loads libs json_data of
                       Inl e \<Rightarrow> Inl e
                     | Inr formatted_json_data \<Rightarrow>
                         if \<not> truthy formatted_json_data then
                           Inl (HTTPException HTTP_400_BAD_REQUEST detail_format_error)
                         else
                           Inr \<lparr>status = HTTP_200_OK, details = details_source,
                                data = formatted_json_data\<rparr>))))"

definition parse_shop :: "'c libs \<Rightarrow> exn + ParseTasksResponse" where
  "parse_shop libs = parse_shop_at file_path libs"

section \<open>tasks.py\<close>

text \<open>
  The three private helpers keep their names without the leading underscore.
  \<^verbatim>\<open>TaskService._get_cached_data\<close>: any exception of the store is caught and the
  function returns \<^verbatim>\<open>None\<close>.
\<close>

definition get_cached_data :: "RedisSettings \<Rightarrow> faults \<Rightarrow> world \<Rightarrow> string option \<times> world" where
  "get_cached_data cfg f w =
     (case redis_get f (CACHE_KEY cfg) w of
        (Inr cached, w') \<Rightarrow> (cached, w')
      | (Inl e, w') \<Rightarrow> (None, w'))"

text \<open>
  \<^verbatim>\<open>TaskService._parse_cached_data\<close>: only \<^verbatim>\<open>json.JSONDecodeError\<close> is caught; the
  key is then deleted, an exception of the delete is caught, and the function returns
  \<^verbatim>\<open>None\<close>, which is also what JSON's \<^verbatim>\<open>null\<close> parses to. Any other exception of
  \<^verbatim>\<open>json.loads\<close> leaves the function.
\<close>

definition parse_cached_data ::
  "RedisSettings \<Rightarrow> 'c libs \<Rightarrow> faults \<Rightarrow> string \<Rightarrow> world \<Rightarrow> (exn + json) \<times> world" where
  "parse_cached_data cfg libs f cached_data w =
     (case json_loads libs cached_data of
        Inr parsed \<Rightarrow> (Inr parsed, w)
      | Inl JSONDecodeError \<Rightarrow>
          (case redis_delete f (CACHE_KEY cfg) w of
             (Inr u, w') \<Rightarrow> (Inr JNull, w')
           | (Inl delete_error, w') \<Rightarrow> (Inr JNull, w'))
      | Inl e \<Rightarrow> (Inl e, w))"

text \<open>
  \<^verbatim>\<open>TaskService._cache_response\<close>: any exception of \<^verbatim>\<open>json.dumps\<close> or of the set
  is caught; the function returns nothing.
\<close>

definition cache_response ::
  "RedisSettings \<Rightarrow> 'c libs \<Rightarrow> faults \<Rightarrow> ParseTasksResponse \<Rightarrow> world \<Rightarrow> world" where
  "cache_response cfg libs f response w =
     (case json_dumps libs (data response) of
        Inl e \<Rightarrow> w
      | Inr serialized \<Rightarrow>
          (case redis_set f (CACHE_KEY cfg) serialized (CACHE_EXPIRE cfg) w of
             (Inr u, w') \<Rightarrow> w'
           | (Inl e, w') \<Rightarrow> w'))"

text \<open>
  The last statements of \<^verbatim>\<open>get_all_tasks\<close>, which both the miss and the corrupted
  entry fall through to: parse the file, cache the response, return it. An exception
  of \<^verbatim>\<open>parse_shop\<close> leaves the function before the write-back.
\<close>

definition parse_and_cache ::
  "RedisSettings \<Rightarrow> 'c libs \<Rightarrow> faults \<Rightarrow> world \<Rightarrow> (exn + ParseTasksResponse) \<times> world" where
  "parse_and_cache cfg libs f w =
     (case parse_shop libs of
        Inl e \<Rightarrow> (Inl e, log ParseShop w)
      | Inr response \<Rightarrow> (Inr response, cache_response cfg libs f response (log ParseShop w)))"

text \<open>\<^verbatim>\<open>TaskService.get_all_tasks\<close>.\<close>

definition get_all_tasks ::
  "RedisSettings \<Rightarrow> 'c libs \<Rightarrow> faults \<Rightarrow> world \<Rightarrow> (exn + ParseTasksResponse) \<times> world" where
  "get_all_tasks cfg libs f w =
     (case get_cached_data cfg f w of
        (None, w1) \<Rightarrow> parse_and_cache cfg libs f w1
      | (Some cached_data, w1) \<Rightarrow>
          if cached_data \<noteq> [] then
            (case parse_cached_data cfg libs f cached_data w1 of
               (Inl e, w2) \<Rightarrow> (Inl e, w2)
             | (Inr parsed_data, w2) \<Rightarrow>
                 if truthy parsed_data then
                   (Inr \<lparr>status = HTTP_200_OK, details = details_cache, data = parsed_data\<rparr>, w2)
                 else parse_and_cache cfg libs f w2)
          else parse_and_cache cfg libs f w1)"

text \<open>The calls one request adds to the log.\<close>

definition events ::
  "RedisSettings \<Rightarrow> 'c libs \<Rightarrow> faults \<Rightarrow> world \<Rightarrow> event list" where
  "events cfg libs f w = drop (length (trace w)) (trace (snd (get_all_tasks cfg libs f w)))"

text \<open>
  The writes to the store that the last statements of a request attempt: none when
  \<^verbatim>\<open>parse_shop\<close> or \<^verbatim>\<open>json.dumps\<close> raises, else one set of the serialized payload
  at the cache key with the configured expiry.
\<close>

definition write_back_events :: "RedisSettings \<Rightarrow> 'c libs \<Rightarrow> event list" where
  "write_back_events cfg libs =
     (case parse_shop libs of
        Inl e \<Rightarrow> []
      | Inr response \<Rightarrow>
          (case json_dumps libs (data response) of
             Inl e \<Rightarrow> []
           | Inr serialized \<Rightarrow> [RedisSet (CACHE_KEY cfg) serialized (CACHE_EXPIRE cfg)]))"

text \<open>
  Whether a request removes the entry at the cache key: it does when the read works,
  the entry is not empty, \<^verbatim>\<open>json.loads\<close> raises \<^verbatim>\<open>JSONDecodeError\<close> on it and the delete
  works.
\<close>

definition deletes_corrupted_entry ::
  "RedisSettings \<Rightarrow> 'c libs \<Rightarrow> faults \<Rightarrow> world \<Rightarrow> bool" where
  "deletes_corrupted_entry cfg libs f w =
     (get_fault f = None \<and> delete_fault f = None \<and>
      (case store w (CACHE_KEY cfg) of
         None \<Rightarrow> False
       | Some (raw, ex) \<Rightarrow> raw \<noteq> [] \<and> json_loads libs raw = Inl JSONDecodeError))"

section \<open>A sample environment\<close>

text \<open>
  The example of the spec: a workbook whose sheet holds three rows with the columns
  \<open>name\<close> and \<open>price\<close>, the text pandas writes for it and the text \<^verbatim>\<open>json.dumps\<close>
  writes for its records. \<open>demo_libs\<close> is a table of the library calls on these
  inputs; every other text is undecodable, but \<open>[]\<close>, which is the empty list, and
  the single byte 0x80, which is not UTF-8.
\<close>

definition demo_frame :: "json dataframe" where
  "demo_frame =
     \<lparr>columns = [''name'', ''price''],
      rows = [[JStr ''A'', JNum 10], [JStr ''B'', JNum 20], [JStr ''C'', JNum 30]]\<rparr>"

definition demo_rows :: json where
  "demo_rows =
     JArr [JObj [(''name'', JStr ''A''), (''price'', JNum 10)],
           JObj [(''name'', JStr ''B''), (''price'', JNum 20)],
           JObj [(''name'', JStr ''C''), (''price'', JNum 30)]]"

definition pandas_text :: string where
  \<open>pandas_text =
     ''[{"name":"A","price":10},{"name":"B","price":20},{"name":"C","price":30}]''\<close>

definition dumps_text :: string where
  \<open>dumps_text =
     ''[{"name": "A", "price": 10}, {"name": "B", "price": 20}, {"name": "C", "price": 30}]''\<close>

definition demo_libs :: "json libs" where
  "demo_libs =
     \<lparr>read_excel = (\<lambda>path sheet.
        if path = file_path \<and> sheet = sheet_name then Inr demo_frame
        else Inl (Exception ''FileNotFoundError'')),
      to_json = (\<lambda>df.
        if df = demo_frame then Inr pandas_text else Inl (Exception ''ValueError'')),
      json_loads = (\<lambda>s.
        if s = pandas_text \<or> s = dumps_text then Inr demo_rows
        else if s = ''[]'' then Inr (JArr [])
        else if s = [CHR 0x80] then Inl (Exception ''UnicodeDecodeError'')
        else Inl JSONDecodeError),
      json_dumps = (\<lambda>v.
        if v = demo_rows then Inr dumps_text else Inl (Exception ''TypeError''))\<rparr>"

text \<open>The same workbook with the header row only, and the libraries reading it.\<close>

definition empty_frame :: "json dataframe" where
  "empty_frame = \<lparr>columns = [''name'', ''price''], rows = []\<rparr>"

definition empty_libs :: "json libs" where
  "empty_libs = demo_libs\<lparr>read_excel := (\<lambda>path sheet. Inr empty_frame)\<rparr>"

text \<open>
  Four states of the store under the default key: no entry, the entry a request
  wrote, the entry \<open>[]\<close>, and an entry that is not JSON.
\<close>

definition cold_world :: world where
  "cold_world = \<lparr>store = Map.empty, trace = []\<rparr>"

definition warm_world :: world where
  "warm_world = \<lparr>store = [''tasks:all'' \<mapsto> (dumps_text, 21600)], trace = []\<rparr>"

definition falsy_world :: world where
  "falsy_world = \<lparr>store = [''tasks:all'' \<mapsto> (''[]'', 21600)], trace = []\<rparr>"

definition corrupt_world :: world where
  "corrupt_world = \<lparr>store = [''tasks:all'' \<mapsto> (''{'', 21600)], trace = []\<rparr>"

text \<open>
  A workbook \<open>PlayIT.xlsx\<close> that has no sheet of the name: pandas raises a
  \<^verbatim>\<open>ValueError\<close> for it. And a directory whose only workbook is \<open>PlayIT.csv\<close>:
  opening any other path raises \<^verbatim>\<open>FileNotFoundError\<close>.
\<close>

definition absent_libs :: "json libs" where
  "absent_libs = demo_libs\<lparr>read_excel := (\<lambda>path sheet. Inl (Exception ''ValueError''))\<rparr>"

definition csv_libs :: "json libs" where
  "csv_libs =
     demo_libs\<lparr>read_excel := (\<lambda>path sheet.
       if path = ''PlayIT.csv'' \<and> sheet = sheet_name then Inr demo_frame
       else Inl (Exception ''FileNotFoundError''))\<rparr>"

text \<open>An entry that is the single byte 0x80.\<close>

definition bad_utf8_world :: world where
  "bad_utf8_world = \<lparr>store = [''tasks:all'' \<mapsto> ([CHR 0x80], 21600)], trace = []\<rparr>"

text \<open>A store that cannot be reached: every operation raises.\<close>

definition store_down :: faults where
  "store_down =
     \<lparr>get_fault = Some (Exception ''ConnectionError''),
      delete_fault = Some (Exception ''ConnectionError''),
      set_fault = Some (Exception ''ConnectionError'')\<rparr>"

section \<open>Facts about the services\<close>

lemma log_simps: "trace (log e w) = trace w @ [e]" "store (log e w) = store w"
  by (simp_all add: log_def)

lemma get_cached_data_fault:
  "get_fault f = Some e \<Longrightarrow>
   get_cached_data cfg f w = (None, log (RedisGet (CACHE_KEY cfg)) w)"
  by (simp add: get_cached_data_def redis_get_def)

lemma get_cached_data_ok:
  "get_fault f = None \<Longrightarrow>
   get_cached_data cfg f w =
     (map_option fst (store w (CACHE_KEY cfg)), log (RedisGet (CACHE_KEY cfg)) w)"
  by (simp add: get_cached_data_def redis_get_def)

lemma parse_and_cache_fst: "fst (parse_and_cache cfg libs f w) = parse_shop libs"
  by (simp add: parse_and_cache_def split: sum.splits)

lemma parse_and_cache_trace:
  "trace (snd (parse_and_cache cfg libs f w)) = trace w @ ParseShop # write_back_events cfg libs"
  by (simp add: parse_and_cache_def cache_response_def redis_set_def log_simps
      write_back_events_def split: sum.splits option.splits)

lemma parse_and_cache_store:
  "store (snd (parse_and_cache cfg libs f w)) =
     (case parse_shop libs of
        Inl e \<Rightarrow> store w
      | Inr response \<Rightarrow>
          (case json_dumps libs (data response) of
             Inl e \<Rightarrow> store w
           | Inr serialized \<Rightarrow>
               (case set_fault f of
                  Some e \<Rightarrow> store w
                | None \<Rightarrow> (store w)(CACHE_KEY cfg \<mapsto> (serialized, CACHE_EXPIRE cfg)))))"
  by (simp add: parse_and_cache_def cache_response_def redis_set_def log_simps
      split: sum.splits option.splits)

lemma parse_shop_truthy: "parse_shop libs = Inr r \<Longrightarrow> truthy (data r)"
  by (auto simp: parse_shop_def parse_shop_at_def split: if_splits sum.splits)

lemma extension_check: "endswith path (py_or ''.xlsx'' ''.xls'') = suffix ''.xlsx'' path"
  by (simp add: endswith_def py_or_def)

lemma file_path_extension: "endswith file_path (py_or ''.xlsx'' ''.xls'')"
  by (simp add: endswith_def py_or_def file_path_def suffix_to_prefix)

lemma demo_records: "records id demo_frame = demo_rows"
  by (simp add: records_def demo_frame_def demo_rows_def)

lemma demo_parse_shop:
  "parse_shop demo_libs =
     Inr \<lparr>status = HTTP_200_OK, details = details_source, data = demo_rows\<rparr>"
  by (simp add: parse_shop_def parse_shop_at_def demo_libs_def file_path_extension
      df_empty_def demo_frame_def demo_rows_def)

lemma demo_dumps: "json_dumps demo_libs demo_rows = Inr dumps_text"
  by (simp add: demo_libs_def)

lemma demo_loads: "json_loads demo_libs dumps_text = Inr demo_rows"
  by (simp add: demo_libs_def)

lemma demo_write_back:
  "write_back_events default_redis_settings demo_libs = [RedisSet ''tasks:all'' dumps_text 21600]"
  by (simp add: write_back_events_def demo_parse_shop demo_dumps default_redis_settings_def)

lemma demo_round_trip: "json_round_trip demo_libs demo_rows"
  by (simp add: json_round_trip_def demo_libs_def dumps_text_def)

lemma demo_pandas: "pandas_writes_records demo_libs id demo_frame"
  by (simp add: pandas_writes_records_def demo_libs_def demo_records)

lemma demo_read: "read_excel demo_libs file_path sheet_name = Inr demo_frame"
  by (simp add: demo_libs_def)

lemma empty_read: "read_excel empty_libs file_path sheet_name = Inr empty_frame"
  by (simp add: empty_libs_def)

lemma empty_parse_shop:
  "parse_shop empty_libs = Inl (HTTPException HTTP_404_NOT_FOUND detail_no_table)"
  by (simp add: parse_shop_def parse_shop_at_def file_path_extension empty_libs_def
      empty_frame_def df_empty_def)

lemma write_back_events_no_delete: "RedisDelete k \<notin> set (write_back_events cfg libs)"
  by (simp add: write_back_events_def split: sum.splits)

lemma parse_shop_ignores_dumps: "parse_shop (libs\<lparr>json_dumps := d\<rparr>) = parse_shop libs"
  by (simp add: parse_shop_def parse_shop_at_def split: sum.splits)

text \<open>A request that finds a usable entry answers from it after the one read.\<close>

lemma cache_hit_result:
  assumes "get_fault f = None"
    and "store w (CACHE_KEY cfg) = Some (raw, ex)"
    and "raw \<noteq> []"
    and "json_loads libs raw = Inr v"
    and "truthy v"
  shows "get_all_tasks cfg libs f w =
           (Inr \<lparr>status = HTTP_200_OK, details = details_cache, data = v\<rparr>,
            log (RedisGet (CACHE_KEY cfg)) w)"
  using assms by (simp add: get_all_tasks_def get_cached_data_ok parse_cached_data_def)

text \<open>A request that finds no entry, or cannot read it, goes on to the file.\<close>

lemma miss_result:
  assumes "store w (CACHE_KEY cfg) = None"
  shows "get_all_tasks cfg libs f w =
           parse_and_cache cfg libs f (log (RedisGet (CACHE_KEY cfg)) w)"
  using assms
  by (simp add: get_all_tasks_def get_cached_data_def redis_get_def split: option.splits)

lemma empty_sheet_404:
  assumes "read_excel libs file_path sheet_name = Inr df"
    and "df_empty df"
  shows "parse_shop libs = Inl (HTTPException HTTP_404_NOT_FOUND detail_no_table)"
  using assms by (simp add: parse_shop_def parse_shop_at_def file_path_extension)

lemma read_excel_exception_propagates:
  assumes "read_excel libs file_path sheet_name = Inl e"
  shows "parse_shop libs = Inl e"
  using assms by (simp add: parse_shop_def parse_shop_at_def file_path_extension)

lemma absent_read: "read_excel absent_libs file_path sheet_name = Inl (Exception ''ValueError'')"
  by (simp add: absent_libs_def)

lemma absent_parse_shop: "parse_shop absent_libs = Inl (Exception ''ValueError'')"
  by (rule read_excel_exception_propagates [OF absent_read])

lemma parse_shop_records:
  assumes "read_excel libs file_path sheet_name = Inr df"
    and "\<not> df_empty df"
    and "pandas_writes_records libs enc df"
  shows "parse_shop libs =
           Inr \<lparr>status = HTTP_200_OK, details = details_source, data = records enc df\<rparr>"
  using assms
  by (auto simp: parse_shop_def parse_shop_at_def file_path_extension pandas_writes_records_def
      records_def df_empty_def split: sum.splits)

text \<open>
  An exception of \<^verbatim>\<open>json.loads\<close> that is not a \<^verbatim>\<open>JSONDecodeError\<close> is not handled:
  it leaves \<^verbatim>\<open>get_all_tasks\<close>, and neither the delete nor the source reader runs.
\<close>

lemma other_loads_exception_propagates:
  assumes "get_fault f = None"
    and "store w (CACHE_KEY cfg) = Some (raw, ex)"
    and "raw \<noteq> []"
    and "json_loads libs raw = Inl (Exception c)"
  shows "get_all_tasks cfg libs f w = (Inl (Exception c), log (RedisGet (CACHE_KEY cfg)) w)"
  using assms by (simp add: get_all_tasks_def get_cached_data_ok parse_cached_data_def)

section \<open>The claims\<close>

subsection \<open>C1: the fast path\<close>

text \<open>
  C1, as stated, fails: a non-empty cached value that deserializes successfully is not
  always returned. With the entry \<open>[]\<close>, which \<^verbatim>\<open>json.loads\<close> reads as the empty
  list, the read succeeds and the text is not empty, yet the response is not the
  envelope with the cached value and the source reader is called.
\<close>

theorem cache_hit_counterexample:
  "get_fault no_faults = None
   \<and> store falsy_world (CACHE_KEY default_redis_settings) = Some (''[]'', 21600)
   \<and> ''[]'' \<noteq> []
   \<and> json_loads demo_libs ''[]'' = Inr (JArr [])
   \<and> fst (get_all_tasks default_redis_settings demo_libs no_faults falsy_world) \<noteq>
       Inr \<lparr>status = HTTP_200_OK, details = details_cache, data = JArr []\<rparr>
   \<and> ParseShop \<in> set (events default_redis_settings demo_libs no_faults falsy_world)"
proof -
  have l: "json_loads demo_libs ''[]'' = Inr (JArr [])"
    by (simp add: demo_libs_def pandas_text_def dumps_text_def)
  have g: "get_all_tasks default_redis_settings demo_libs no_faults falsy_world =
             parse_and_cache default_redis_settings demo_libs no_faults
               (log (RedisGet ''tasks:all'') falsy_world)"
    by (simp add: get_all_tasks_def get_cached_data_def redis_get_def parse_cached_data_def l
        no_faults_def falsy_world_def default_redis_settings_def)
  show ?thesis
    by (simp add: l g parse_and_cache_fst parse_and_cache_trace demo_parse_shop events_def
        log_simps demo_rows_def)
      (simp add: no_faults_def falsy_world_def default_redis_settings_def)
qed

text \<open>
  C1, amended: when the read of the cache key succeeds with a non-empty value that
  \<^verbatim>\<open>json.loads\<close> deserializes to a value Python counts as true (not \<^verbatim>\<open>null\<close>,
  \<^verbatim>\<open>false\<close>, zero, or an empty string, list or object), \<^verbatim>\<open>get_all_tasks\<close> returns
  the envelope with status 200, the from-cache detail and the deserialized value as
  payload; the request makes the one read of the store and no call of the source
  reader, and leaves the store as it was.
\<close>

theorem get_all_tasks_cache_hit:
  assumes "get_fault f = None"
    and "store w (CACHE_KEY cfg) = Some (raw, ex)"
    and "raw \<noteq> []"
    and "json_loads libs raw = Inr v"
    and "truthy v"
  shows "get_all_tasks cfg libs f w =
           (Inr \<lparr>status = HTTP_200_OK, details = details_cache, data = v\<rparr>,
            log (RedisGet (CACHE_KEY cfg)) w)
       \<and> HTTP_200_OK = 200
       \<and> events cfg libs f w = [RedisGet (CACHE_KEY cfg)]
       \<and> ParseShop \<notin> set (events cfg libs f w)"
  using cache_hit_result [OF assms]
  by (simp add: events_def log_simps HTTP_200_OK_def)

theorem get_all_tasks_cache_hit_witness:
  "get_fault no_faults = None
   \<and> store warm_world (CACHE_KEY default_redis_settings) = Some (dumps_text, 21600)
   \<and> dumps_text \<noteq> []
   \<and> json_loads demo_libs dumps_text = Inr demo_rows
   \<and> truthy demo_rows
   \<and> fst (get_all_tasks default_redis_settings demo_libs no_faults warm_world) =
       Inr \<lparr>status = HTTP_200_OK, details = details_cache, data = demo_rows\<rparr>
   \<and> events default_redis_settings demo_libs no_faults warm_world = [RedisGet ''tasks:all'']
   \<and> ParseShop \<notin> set (events default_redis_settings demo_libs no_faults warm_world)"
proof -
  have h1: "get_fault no_faults = None"
    by (simp add: no_faults_def)
  have h2: "store warm_world (CACHE_KEY default_redis_settings) = Some (dumps_text, 21600)"
    by (simp add: warm_world_def default_redis_settings_def)
  have h3: "dumps_text \<noteq> []"
    by (simp add: dumps_text_def)
  have h4: "json_loads demo_libs dumps_text = Inr demo_rows"
    by (rule demo_loads)
  have h5: "truthy demo_rows"
    by (simp add: demo_rows_def)
  from get_all_tasks_cache_hit [OF h1 h2 h3 h4 h5] show ?thesis
    using h1 h2 h3 h4 h5 by (simp add: default_redis_settings_def)
qed

subsection \<open>C2: a failing read of the store\<close>

text \<open>
  C2: when the get of the store raises, whatever the exception, \<^verbatim>\<open>get_all_tasks\<close>
  answers what the source reader answers, which is also the answer of a request that
  reads a store without the key; the calls it makes are the failed read, the source
  reader and the write-back. The exception of the store reaches the caller nowhere:
  the result is that of \<^verbatim>\<open>parse_shop\<close>.
\<close>

theorem get_all_tasks_get_error_is_miss:
  assumes "get_fault f = Some e"
  shows "fst (get_all_tasks cfg libs f w) = parse_shop libs
       \<and> fst (get_all_tasks cfg libs f w) =
           fst (get_all_tasks cfg libs (f\<lparr>get_fault := None\<rparr>)
                  (w\<lparr>store := (store w)(CACHE_KEY cfg := None)\<rparr>))
       \<and> events cfg libs f w = RedisGet (CACHE_KEY cfg) # ParseShop # write_back_events cfg libs"
  using assms
  by (simp add: get_all_tasks_def get_cached_data_fault get_cached_data_ok
      parse_and_cache_fst parse_and_cache_trace events_def log_simps)

theorem get_all_tasks_get_error_is_miss_witness:
  "get_fault store_down = Some (Exception ''ConnectionError'')
   \<and> fst (get_all_tasks default_redis_settings demo_libs store_down warm_world) =
       Inr \<lparr>status = HTTP_200_OK, details = details_source, data = demo_rows\<rparr>
   \<and> events default_redis_settings demo_libs store_down warm_world =
       [RedisGet ''tasks:all'', ParseShop, RedisSet ''tasks:all'' dumps_text 21600]"
proof -
  have h: "get_fault store_down = Some (Exception ''ConnectionError'')"
    by (simp add: store_down_def)
  from get_all_tasks_get_error_is_miss
    [OF h, where cfg = default_redis_settings and libs = demo_libs and w = warm_world]
  show ?thesis
    using h by (simp add: demo_parse_shop demo_write_back) (simp add: default_redis_settings_def)
qed

subsection \<open>C3: a corrupted entry\<close>

text \<open>
  The recovery the code has: when the cache key holds a non-empty value on which
  \<^verbatim>\<open>json.loads\<close> raises \<^verbatim>\<open>JSONDecodeError\<close>, the request (a) calls the delete of the
  key right after the read, and whatever the delete does, also raise, (b) calls the
  source reader next and (c) answers what the source reader answers; (d) when the
  source read succeeds, its payload serializes and the set does not raise, the key
  afterwards holds the serialized payload of the response, with the configured expiry.
\<close>

lemma get_all_tasks_corrupted_entry:
  assumes "get_fault f = None"
    and "store w (CACHE_KEY cfg) = Some (raw, ex)"
    and "raw \<noteq> []"
    and "json_loads libs raw = Inl JSONDecodeError"
  shows "events cfg libs f w =
           RedisGet (CACHE_KEY cfg) # RedisDelete (CACHE_KEY cfg) # ParseShop #
           write_back_events cfg libs
       \<and> fst (get_all_tasks cfg libs f w) = parse_shop libs
       \<and> (parse_shop libs = Inr r \<and> json_dumps libs (data r) = Inr s \<and> set_fault f = None \<longrightarrow>
            store (snd (get_all_tasks cfg libs f w)) (CACHE_KEY cfg) = Some (s, CACHE_EXPIRE cfg))"
  using assms
  by (simp add: get_all_tasks_def get_cached_data_ok parse_cached_data_def redis_delete_def
      parse_and_cache_fst parse_and_cache_trace parse_and_cache_store events_def log_simps
      split: option.splits)

text \<open>
  An instance: a request on the entry \<open>{\<close> with a store whose delete raises and
  whose get and set work.
\<close>

lemma get_all_tasks_corrupted_entry_instance:
  "get_fault (no_faults\<lparr>delete_fault := Some (Exception ''TimeoutError'')\<rparr>) = None
   \<and> store corrupt_world (CACHE_KEY default_redis_settings) = Some (''{'', 21600)
   \<and> ''{'' \<noteq> []
   \<and> json_loads demo_libs ''{'' = Inl JSONDecodeError
   \<and> events default_redis_settings demo_libs
         (no_faults\<lparr>delete_fault := Some (Exception ''TimeoutError'')\<rparr>) corrupt_world =
       [RedisGet ''tasks:all'', RedisDelete ''tasks:all'', ParseShop,
        RedisSet ''tasks:all'' dumps_text 21600]
   \<and> fst (get_all_tasks default_redis_settings demo_libs
         (no_faults\<lparr>delete_fault := Some (Exception ''TimeoutError'')\<rparr>) corrupt_world) =
       Inr \<lparr>status = HTTP_200_OK, details = details_source, data = demo_rows\<rparr>
   \<and> store (snd (get_all_tasks default_redis_settings demo_libs
         (no_faults\<lparr>delete_fault := Some (Exception ''TimeoutError'')\<rparr>) corrupt_world))
       ''tasks:all'' = Some (dumps_text, 21600)"
proof -
  let ?f = "no_faults\<lparr>delete_fault := Some (Exception ''TimeoutError'')\<rparr>"
  have h1: "get_fault ?f = None"
    by (simp add: no_faults_def)
  have h2: "store corrupt_world (CACHE_KEY default_redis_settings) = Some (''{'', 21600)"
    by (simp add: corrupt_world_def default_redis_settings_def)
  have h3: "''{'' \<noteq> []"
    by simp
  have h4: "json_loads demo_libs ''{'' = Inl JSONDecodeError"
    by (simp add: demo_libs_def pandas_text_def dumps_text_def)
  have h5: "set_fault ?f = None"
    by (simp add: no_faults_def)
  from get_all_tasks_corrupted_entry
    [OF h1 h2 h3 h4, where r = "\<lparr>status = HTTP_200_OK, details = details_source, data = demo_rows\<rparr>"
      and s = dumps_text]
  show ?thesis
    using h1 h2 h4 h5
    by (simp add: demo_parse_shop demo_write_back demo_dumps)
      (simp add: default_redis_settings_def)
qed

text \<open>
  C3: the claim asks the recovery for every non-empty value that fails
  deserialization. \<^verbatim>\<open>_parse_cached_data\<close> catches \<^verbatim>\<open>json.JSONDecodeError\<close> only, where
  its siblings catch \<^verbatim>\<open>Exception\<close>. On the entry that is the single byte 0x80,
  \<^verbatim>\<open>json.loads\<close> raises \<^verbatim>\<open>UnicodeDecodeError\<close>: the request makes the one read of the
  store, issues no delete, does not call the source reader, leaves the entry where it
  is and raises that exception to its caller.
\<close>

theorem get_all_tasks_undecodable_entry_raises:
  "get_fault no_faults = None
   \<and> store bad_utf8_world (CACHE_KEY default_redis_settings) = Some ([CHR 0x80], 21600)
   \<and> [CHR 0x80] \<noteq> []
   \<and> json_loads demo_libs [CHR 0x80] = Inl (Exception ''UnicodeDecodeError'')
   \<and> fst (get_all_tasks default_redis_settings demo_libs no_faults bad_utf8_world) =
       Inl (Exception ''UnicodeDecodeError'')
   \<and> fst (get_all_tasks default_redis_settings demo_libs no_faults bad_utf8_world) \<noteq>
       parse_shop demo_libs
   \<and> events default_redis_settings demo_libs no_faults bad_utf8_world = [RedisGet ''tasks:all'']
   \<and> store (snd (get_all_tasks default_redis_settings demo_libs no_faults bad_utf8_world))
       ''tasks:all'' = Some ([CHR 0x80], 21600)"
proof -
  have h1: "get_fault no_faults = None"
    by (simp add: no_faults_def)
  have h2: "store bad_utf8_world (CACHE_KEY default_redis_settings) = Some ([CHR 0x80], 21600)"
    by (simp add: bad_utf8_world_def default_redis_settings_def)
  have h3: "[CHR 0x80] \<noteq> []"
    by simp
  have h4: "json_loads demo_libs [CHR 0x80] = Inl (Exception ''UnicodeDecodeError'')"
    by (simp add: demo_libs_def pandas_text_def dumps_text_def)
  note g = other_loads_exception_propagates [OF h1 h2 h3 h4]
  have k: "CACHE_KEY default_redis_settings = ''tasks:all''"
    by (simp add: default_redis_settings_def)
  show ?thesis
    using h1 h2 h4 by (simp add: g events_def log_simps demo_parse_shop k)
qed

subsection \<open>C4: the write-back cannot change the response\<close>

text \<open>
  C4: whenever a request calls the source reader, what it returns is exactly what the
  source reader returned; and the response of a request is the same for every outcome
  of the write-back, that is whatever \<^verbatim>\<open>json.dumps\<close> returns or raises and whether or
  not the set of the store raises.
\<close>

theorem get_all_tasks_write_back_frame:
  "(ParseShop \<in> set (events cfg libs f w) \<longrightarrow>
      fst (get_all_tasks cfg libs f w) = parse_shop libs)
   \<and> fst (get_all_tasks cfg (libs\<lparr>json_dumps := d\<rparr>) (f\<lparr>set_fault := x\<rparr>) w) =
       fst (get_all_tasks cfg libs f w)"
  by (simp add: get_all_tasks_def get_cached_data_def redis_get_def parse_cached_data_def
      redis_delete_def parse_and_cache_fst parse_and_cache_trace events_def log_simps
      parse_shop_ignores_dumps
      split: option.splits sum.splits exn.splits)

theorem get_all_tasks_write_back_frame_witness:
  "ParseShop \<in> set (events default_redis_settings demo_libs no_faults cold_world)
   \<and> fst (get_all_tasks default_redis_settings demo_libs no_faults cold_world) =
       Inr \<lparr>status = HTTP_200_OK, details = details_source, data = demo_rows\<rparr>
   \<and> fst (get_all_tasks default_redis_settings
         (demo_libs\<lparr>json_dumps := (\<lambda>v. Inl (Exception ''TypeError''))\<rparr>)
         (no_faults\<lparr>set_fault := Some (Exception ''ConnectionError'')\<rparr>) cold_world) =
       Inr \<lparr>status = HTTP_200_OK, details = details_source, data = demo_rows\<rparr>"
proof -
  have m: "store cold_world (CACHE_KEY default_redis_settings) = None"
    by (simp add: cold_world_def)
  have e: "ParseShop \<in> set (events default_redis_settings demo_libs no_faults cold_world)"
    by (simp add: events_def miss_result [OF m] parse_and_cache_trace log_simps)
  from get_all_tasks_write_back_frame
    [where cfg = default_redis_settings and libs = demo_libs and f = no_faults
      and w = cold_world and d = "\<lambda>v. Inl (Exception ''TypeError'')"
      and x = "Some (Exception ''ConnectionError'')"]
  show ?thesis
    using e by (simp add: demo_parse_shop)
qed

subsection \<open>C5: two requests from a cold cache\<close>

text \<open>
  C5: start from a store without the cache key, a source read that succeeds, and
  libraries for which the payload round-trips through \<^verbatim>\<open>json.dumps\<close> and
  \<^verbatim>\<open>json.loads\<close>; let the set of the first request and the get of the second one
  work. Then the first request returns the response of the source reader, the second
  returns the from-cache envelope with the same payload, and of all the calls the two
  requests make exactly one is a call of the source reader, in the first request.
\<close>

theorem get_all_tasks_twice:
  assumes "store w (CACHE_KEY cfg) = None"
    and "parse_shop libs = Inr r"
    and "json_round_trip libs (data r)"
    and "set_fault f1 = None"
    and "get_fault f2 = None"
  shows "fst (get_all_tasks cfg libs f1 w) = Inr r
       \<and> fst (get_all_tasks cfg libs f2 (snd (get_all_tasks cfg libs f1 w))) =
           Inr \<lparr>status = HTTP_200_OK, details = details_cache, data = data r\<rparr>
       \<and> events cfg libs f1 w = RedisGet (CACHE_KEY cfg) # ParseShop # write_back_events cfg libs
       \<and> events cfg libs f2 (snd (get_all_tasks cfg libs f1 w)) = [RedisGet (CACHE_KEY cfg)]
       \<and> count_list
            (events cfg libs f1 w @ events cfg libs f2 (snd (get_all_tasks cfg libs f1 w)))
            ParseShop = 1"
proof -
  obtain s where s: "json_dumps libs (data r) = Inr s" "s \<noteq> []"
      "json_loads libs s = Inr (data r)"
    using assms(3) by (auto simp: json_round_trip_def split: sum.splits)
  note miss = miss_result [OF assms(1), of libs f1]
  have first: "fst (get_all_tasks cfg libs f1 w) = Inr r"
    using assms(2) by (simp add: miss parse_and_cache_fst)
  have ev1: "events cfg libs f1 w =
               RedisGet (CACHE_KEY cfg) # ParseShop # write_back_events cfg libs"
    by (simp add: events_def miss parse_and_cache_trace log_simps)
  have st: "store (snd (get_all_tasks cfg libs f1 w)) (CACHE_KEY cfg) =
              Some (s, CACHE_EXPIRE cfg)"
    using assms(2,4) s(1) by (simp add: miss parse_and_cache_store)
  have tr: "truthy (data r)"
    using assms(2) by (rule parse_shop_truthy)
  note hit = cache_hit_result [OF assms(5) st s(2) s(3) tr]
  have ev2: "events cfg libs f2 (snd (get_all_tasks cfg libs f1 w)) = [RedisGet (CACHE_KEY cfg)]"
    by (simp add: events_def hit log_simps)
  have wb: "write_back_events cfg libs = [RedisSet (CACHE_KEY cfg) s (CACHE_EXPIRE cfg)]"
    using assms(2) s(1) by (simp add: write_back_events_def)
  show ?thesis
    using first by (simp add: ev1 ev2 hit wb)
qed

theorem get_all_tasks_twice_witness:
  "store cold_world (CACHE_KEY default_redis_settings) = None
   \<and> parse_shop demo_libs =
       Inr \<lparr>status = HTTP_200_OK, details = details_source, data = demo_rows\<rparr>
   \<and> json_round_trip demo_libs demo_rows
   \<and> set_fault no_faults = None
   \<and> get_fault no_faults = None
   \<and> fst (get_all_tasks default_redis_settings demo_libs no_faults cold_world) =
       Inr \<lparr>status = HTTP_200_OK, details = details_source, data = demo_rows\<rparr>
   \<and> fst (get_all_tasks default_redis_settings demo_libs no_faults
         (snd (get_all_tasks default_redis_settings demo_libs no_faults cold_world))) =
       Inr \<lparr>status = HTTP_200_OK, details = details_cache, data = demo_rows\<rparr>
   \<and> events default_redis_settings demo_libs no_faults cold_world =
       [RedisGet ''tasks:all'', ParseShop, RedisSet ''tasks:all'' dumps_text 21600]
   \<and> events default_redis_settings demo_libs no_faults
         (snd (get_all_tasks default_redis_settings demo_libs no_faults cold_world)) =
       [RedisGet ''tasks:all'']"
proof -
  have h1: "store cold_world (CACHE_KEY default_redis_settings) = None"
    by (simp add: cold_world_def)
  have h3: "json_round_trip demo_libs
              (data \<lparr>status = HTTP_200_OK, details = details_source, data = demo_rows\<rparr>)"
    by (simp add: demo_round_trip)
  have h4: "set_fault no_faults = None"
    by (simp add: no_faults_def)
  have h5: "get_fault no_faults = None"
    by (simp add: no_faults_def)
  from get_all_tasks_twice [OF h1 demo_parse_shop h3 h4 h5] show ?thesis
    using h1 h4 h5
    by (simp add: demo_parse_shop demo_round_trip demo_write_back)
      (simp add: default_redis_settings_def)
qed

subsection \<open>C6: the extension check\<close>

text \<open>
  C6, as stated, fails: a source file with an extension that is not accepted does not
  make the source reader fail with the 422 exception. In a directory whose only
  workbook is \<open>PlayIT.csv\<close>, a path that ends neither in \<open>.xlsx\<close> nor in \<open>.xls\<close>,
  the source reader fails with the \<^verbatim>\<open>FileNotFoundError\<close> that \<^verbatim>\<open>read_excel\<close> raises for
  \<open>PlayIT.xlsx\<close>, the one path it checks and opens.
\<close>

theorem parse_shop_csv_counterexample:
  "read_excel csv_libs ''PlayIT.csv'' sheet_name = Inr demo_frame
   \<and> \<not> endswith ''PlayIT.csv'' ''.xlsx''
   \<and> \<not> endswith ''PlayIT.csv'' ''.xls''
   \<and> parse_shop csv_libs = Inl (Exception ''FileNotFoundError'')
   \<and> parse_shop csv_libs \<noteq>
       Inl (HTTPException HTTP_422_UNPROCESSABLE_ENTITY detail_unprocessable)"
proof -
  have r: "read_excel csv_libs file_path sheet_name = Inl (Exception ''FileNotFoundError'')"
    by (simp add: csv_libs_def file_path_def)
  show ?thesis
    by (simp add: read_excel_exception_propagates [OF r])
      (simp add: csv_libs_def endswith_def suffix_to_prefix)
qed

text \<open>
  C6, amended: the source reader applies its extension check to the one path it reads,
  the literal \<open>PlayIT.xlsx\<close>, whose extension \<open>.xlsx\<close> passes the check without
  raising; so the check never raises the 422 exception, whatever files exist, and the
  source reader does what its statements after the check do.
\<close>

theorem parse_shop_extension_check_passes:
  "suffix ''.xlsx'' file_path
   \<and> endswith file_path (py_or ''.xlsx'' ''.xls'')
   \<and> parse_shop libs =
       (case read_excel libs file_path sheet_name of
          Inl e \<Rightarrow> Inl e
        | Inr exel_shop_df \<Rightarrow>
            if df_empty exel_shop_df then
              Inl (HTTPException HTTP_404_NOT_FOUND detail_no_table)
            else
              (case to_json libs exel_shop_df of
                 Inl e \<Rightarrow> Inl e
               | Inr json_data \<Rightarrow>
                   (case json_loads libs json_data of
                      Inl e \<Rightarrow> Inl e
                    | Inr formatted_json_data \<Rightarrow>
                        if \<not> truthy formatted_json_data then
                          Inl (HTTPException HTTP_400_BAD_REQUEST detail_format_error)
                        else
                          Inr \<lparr>status = HTTP_200_OK, details = details_source,
                               data = formatted_json_data\<rparr>)))"
proof -
  have "suffix ''.xlsx'' file_path"
    using file_path_extension by (simp add: extension_check)
  then show ?thesis
    by (simp add: file_path_extension parse_shop_def parse_shop_at_def)
qed

subsection \<open>C7: an absent or empty sheet\<close>

text \<open>
  C7, as stated, fails twice. When the workbook has no sheet of the name,
  \<^verbatim>\<open>read_excel\<close> raises and the request fails with that exception, not with the 404
  exception. And a request whose source read fails can change the cache state: with a
  corrupted entry at the key and a sheet without rows, the request fails with the 404
  exception and the entry is gone afterwards.
\<close>

theorem absent_or_empty_sheet_counterexample:
  "read_excel absent_libs file_path sheet_name = Inl (Exception ''ValueError'')
   \<and> fst (get_all_tasks default_redis_settings absent_libs no_faults cold_world) =
       Inl (Exception ''ValueError'')
   \<and> fst (get_all_tasks default_redis_settings absent_libs no_faults cold_world) \<noteq>
       Inl (HTTPException HTTP_404_NOT_FOUND detail_no_table)
   \<and> read_excel empty_libs file_path sheet_name = Inr empty_frame
   \<and> rows empty_frame = []
   \<and> fst (get_all_tasks default_redis_settings empty_libs no_faults corrupt_world) =
       Inl (HTTPException HTTP_404_NOT_FOUND detail_no_table)
   \<and> store corrupt_world ''tasks:all'' = Some (''{'', 21600)
   \<and> store (snd (get_all_tasks default_redis_settings empty_libs no_faults corrupt_world))
       ''tasks:all'' = None
   \<and> store (snd (get_all_tasks default_redis_settings empty_libs no_faults corrupt_world)) \<noteq>
       store corrupt_world"
proof -
  have m: "store cold_world (CACHE_KEY default_redis_settings) = None"
    by (simp add: cold_world_def)
  have n: "fst (get_all_tasks default_redis_settings absent_libs no_faults cold_world) =
             Inl (Exception ''ValueError'')"
    by (simp add: miss_result [OF m] parse_and_cache_fst absent_parse_shop)
  have l: "json_loads empty_libs ''{'' = Inl JSONDecodeError"
    by (simp add: empty_libs_def demo_libs_def pandas_text_def dumps_text_def)
  have g: "get_all_tasks default_redis_settings empty_libs no_faults corrupt_world =
             parse_and_cache default_redis_settings empty_libs no_faults
               (log (RedisDelete ''tasks:all'')
                  (log (RedisGet ''tasks:all'') corrupt_world\<lparr>store := Map.empty\<rparr>))"
    by (simp add: get_all_tasks_def get_cached_data_def redis_get_def parse_cached_data_def l
        redis_delete_def no_faults_def corrupt_world_def default_redis_settings_def log_def)
  have a: "store (snd (get_all_tasks default_redis_settings empty_libs no_faults corrupt_world))
             ''tasks:all'' = None"
    by (simp add: g parse_and_cache_store empty_parse_shop log_simps)
  have b: "store corrupt_world ''tasks:all'' = Some (''{'', 21600)"
    by (simp add: corrupt_world_def)
  have c: "store (snd (get_all_tasks default_redis_settings empty_libs no_faults corrupt_world)) \<noteq>
             store corrupt_world"
    using a b by (metis option.distinct(1))
  show ?thesis
    using a b c
    by (simp add: n absent_read empty_read empty_frame_def g parse_and_cache_fst
        empty_parse_shop)
qed

text \<open>
  C7, amended: if reading the named sheet raises, as it does when the sheet is absent,
  or yields an empty frame (no rows, or no columns), the source reader fails, with the
  404 exception when the frame is empty; a request that calls the source reader fails
  with the exception of the source reader; and the request writes no value to the
  cache: it issues no set, and the store afterwards is the store before, but for the
  cache key when the request found an entry on which \<^verbatim>\<open>json.loads\<close> raised
  \<^verbatim>\<open>JSONDecodeError\<close> and its delete worked: that entry is gone. Which exception the
  request fails with when the sheet is absent is not part of the amended claim.
\<close>

theorem get_all_tasks_sheet_absent_or_empty:
  assumes "(\<exists>e. read_excel libs file_path sheet_name = Inl e)
         \<or> (\<exists>df. read_excel libs file_path sheet_name = Inr df \<and> df_empty df)"
  shows "(\<exists>e. parse_shop libs = Inl e)
       \<and> (read_excel libs file_path sheet_name = Inr df' \<longrightarrow>
            parse_shop libs = Inl (HTTPException HTTP_404_NOT_FOUND detail_no_table))
       \<and> HTTP_404_NOT_FOUND = 404
       \<and> (ParseShop \<in> set (events cfg libs f w) \<longrightarrow>
            fst (get_all_tasks cfg libs f w) = parse_shop libs)
       \<and> (\<forall>k v ex. RedisSet k v ex \<notin> set (events cfg libs f w))
       \<and> store (snd (get_all_tasks cfg libs f w)) =
           (if deletes_corrupted_entry cfg libs f w then (store w)(CACHE_KEY cfg := None)
            else store w)"
proof -
  have fails: "\<exists>e. parse_shop libs = Inl e"
    using assms read_excel_exception_propagates empty_sheet_404 by blast
  have typed: "read_excel libs file_path sheet_name = Inr df' \<longrightarrow>
                 parse_shop libs = Inl (HTTPException HTTP_404_NOT_FOUND detail_no_table)"
    using assms empty_sheet_404 by auto
  obtain e where e: "parse_shop libs = Inl e"
    using fails by blast
  have wb: "write_back_events cfg libs = []"
    by (simp add: write_back_events_def e)
  have rest: "(ParseShop \<in> set (events cfg libs f w) \<longrightarrow>
                 fst (get_all_tasks cfg libs f w) = parse_shop libs)
            \<and> (\<forall>k v ex. RedisSet k v ex \<notin> set (events cfg libs f w))
            \<and> store (snd (get_all_tasks cfg libs f w)) =
                (if deletes_corrupted_entry cfg libs f w then (store w)(CACHE_KEY cfg := None)
                 else store w)"
    by (simp add: e wb get_all_tasks_def get_cached_data_def redis_get_def parse_cached_data_def
        redis_delete_def parse_and_cache_fst parse_and_cache_trace parse_and_cache_store
        events_def log_simps deletes_corrupted_entry_def
        split: option.splits sum.splits exn.splits)
  show ?thesis
    using fails typed rest by (simp add: HTTP_404_NOT_FOUND_def)
qed

text \<open>
  Two instances: the sheet without rows read while the store is down, and the absent
  sheet read after a corrupted entry was deleted.
\<close>

theorem get_all_tasks_sheet_absent_or_empty_witness:
  "read_excel empty_libs file_path sheet_name = Inr empty_frame
   \<and> df_empty empty_frame
   \<and> parse_shop empty_libs = Inl (HTTPException HTTP_404_NOT_FOUND detail_no_table)
   \<and> ParseShop \<in> set (events default_redis_settings empty_libs store_down cold_world)
   \<and> fst (get_all_tasks default_redis_settings empty_libs store_down cold_world) =
       Inl (HTTPException HTTP_404_NOT_FOUND detail_no_table)
   \<and> store (snd (get_all_tasks default_redis_settings empty_libs store_down cold_world)) =
       store cold_world
   \<and> read_excel absent_libs file_path sheet_name = Inl (Exception ''ValueError'')
   \<and> deletes_corrupted_entry default_redis_settings absent_libs no_faults corrupt_world
   \<and> ParseShop \<in> set (events default_redis_settings absent_libs no_faults corrupt_world)
   \<and> fst (get_all_tasks default_redis_settings absent_libs no_faults corrupt_world) =
       parse_shop absent_libs
   \<and> store (snd (get_all_tasks default_redis_settings absent_libs no_faults corrupt_world)) =
       (store corrupt_world)(''tasks:all'' := None)"
proof -
  have h2: "df_empty empty_frame"
    by (simp add: df_empty_def empty_frame_def)
  have a1: "(\<exists>e. read_excel empty_libs file_path sheet_name = Inl e)
          \<or> (\<exists>df. read_excel empty_libs file_path sheet_name = Inr df \<and> df_empty df)"
    using empty_read h2 by blast
  have a2: "(\<exists>e. read_excel absent_libs file_path sheet_name = Inl e)
          \<or> (\<exists>df. read_excel absent_libs file_path sheet_name = Inr df \<and> df_empty df)"
    using absent_read by blast
  have m: "store cold_world (CACHE_KEY default_redis_settings) = None"
    by (simp add: cold_world_def)
  have e1: "ParseShop \<in> set (events default_redis_settings empty_libs store_down cold_world)"
    by (simp add: events_def miss_result [OF m] parse_and_cache_trace log_simps)
  have nd: "\<not> deletes_corrupted_entry default_redis_settings empty_libs store_down cold_world"
    by (simp add: deletes_corrupted_entry_def store_down_def)
  have l: "json_loads absent_libs ''{'' = Inl JSONDecodeError"
    by (simp add: absent_libs_def demo_libs_def pandas_text_def dumps_text_def)
  have d: "deletes_corrupted_entry default_redis_settings absent_libs no_faults corrupt_world"
    by (simp add: deletes_corrupted_entry_def no_faults_def corrupt_world_def
        default_redis_settings_def l)
  have g: "get_fault no_faults = None"
    by (simp add: no_faults_def)
  have c: "store corrupt_world (CACHE_KEY default_redis_settings) = Some (''{'', 21600)"
    by (simp add: corrupt_world_def default_redis_settings_def)
  have e2: "ParseShop \<in> set (events default_redis_settings absent_libs no_faults corrupt_world)"
    using g c l
    by (simp add: events_def get_all_tasks_def get_cached_data_ok parse_cached_data_def
        redis_delete_def parse_and_cache_trace log_simps split: option.splits)
  have k: "CACHE_KEY default_redis_settings = ''tasks:all''"
    by (simp add: default_redis_settings_def)
  from get_all_tasks_sheet_absent_or_empty
      [OF a1, where cfg = default_redis_settings and f = store_down and w = cold_world
        and df' = empty_frame]
    get_all_tasks_sheet_absent_or_empty
      [OF a2, where cfg = default_redis_settings and f = no_faults and w = corrupt_world]
  show ?thesis
    using e1 e2 h2 nd d by (simp add: empty_read absent_read k)
qed

subsection \<open>C8: a successful source read\<close>

text \<open>
  C8: when \<^verbatim>\<open>read_excel\<close> returns a frame of the named sheet that is not empty, and
  pandas and \<^verbatim>\<open>json.loads\<close> render it as its records, the source reader returns the
  envelope with status 200, the directly-from-source detail and, as payload, the list
  with one object per row of the sheet, in row order, each pairing the column labels
  with the row's cells; the payload has as many records as the sheet has rows. A
  request that finds no entry in the cache returns this envelope.
\<close>

theorem parse_shop_success:
  assumes "read_excel libs file_path sheet_name = Inr df"
    and "\<not> df_empty df"
    and "pandas_writes_records libs enc df"
  shows "parse_shop libs =
           Inr \<lparr>status = 200, details = details_source,
                data = JArr (map (\<lambda>r. JObj (zip (columns df) (map enc r))) (rows df))\<rparr>
       \<and> length (map (\<lambda>r. JObj (zip (columns df) (map enc r))) (rows df)) = length (rows df)
       \<and> (store w (CACHE_KEY cfg) = None \<longrightarrow>
            fst (get_all_tasks cfg libs f w) = parse_shop libs)"
  using parse_shop_records [OF assms]
  by (simp add: records_def HTTP_200_OK_def get_all_tasks_def get_cached_data_def redis_get_def
      parse_and_cache_fst split: option.splits)

theorem parse_shop_success_witness:
  "read_excel demo_libs file_path sheet_name = Inr demo_frame
   \<and> \<not> df_empty demo_frame
   \<and> pandas_writes_records demo_libs id demo_frame
   \<and> parse_shop demo_libs =
       Inr \<lparr>status = 200, details = details_source,
            data = JArr [JObj [(''name'', JStr ''A''), (''price'', JNum 10)],
                         JObj [(''name'', JStr ''B''), (''price'', JNum 20)],
                         JObj [(''name'', JStr ''C''), (''price'', JNum 30)]]\<rparr>
   \<and> store cold_world (CACHE_KEY default_redis_settings) = None
   \<and> fst (get_all_tasks default_redis_settings demo_libs no_faults cold_world) =
       parse_shop demo_libs"
proof -
  have h2: "\<not> df_empty demo_frame"
    by (simp add: df_empty_def demo_frame_def)
  have m: "store cold_world (CACHE_KEY default_redis_settings) = None"
    by (simp add: cold_world_def)
  from parse_shop_success
    [OF demo_read h2 demo_pandas, where w = cold_world and cfg = default_redis_settings
      and f = no_faults]
  show ?thesis
    using h2 m by (simp add: demo_read demo_pandas) (simp add: demo_frame_def)
qed

subsection \<open>C9: a cached value that counts as false\<close>

text \<open>
  C9: when the cache key holds a non-empty value that \<^verbatim>\<open>json.loads\<close> deserializes to
  a value Python counts as false, such as \<open>[]\<close>, \<^verbatim>\<open>null\<close> or \<open>0\<close>, the request does
  not return it: its response is that of the source reader, never the from-cache
  envelope with that value; its calls are the read, the source reader and the
  write-back, with no delete of the key; and when the source read succeeds, its payload
  serializes and the set does not raise, the key afterwards holds the serialized
  payload of the response.
\<close>

theorem get_all_tasks_falsy_cached_value:
  assumes "get_fault f = None"
    and "store w (CACHE_KEY cfg) = Some (raw, ex)"
    and "raw \<noteq> []"
    and "json_loads libs raw = Inr v"
    and "\<not> truthy v"
  shows "fst (get_all_tasks cfg libs f w) = parse_shop libs
       \<and> fst (get_all_tasks cfg libs f w) \<noteq>
           Inr \<lparr>status = HTTP_200_OK, details = details_cache, data = v\<rparr>
       \<and> events cfg libs f w = RedisGet (CACHE_KEY cfg) # ParseShop # write_back_events cfg libs
       \<and> RedisDelete (CACHE_KEY cfg) \<notin> set (events cfg libs f w)
       \<and> (parse_shop libs = Inr r \<and> json_dumps libs (data r) = Inr s \<and> set_fault f = None \<longrightarrow>
            store (snd (get_all_tasks cfg libs f w)) (CACHE_KEY cfg) = Some (s, CACHE_EXPIRE cfg))"
proof -
  have g: "get_all_tasks cfg libs f w =
             parse_and_cache cfg libs f (log (RedisGet (CACHE_KEY cfg)) w)"
    using assms by (simp add: get_all_tasks_def get_cached_data_ok parse_cached_data_def)
  have ne: "parse_shop libs \<noteq> Inr \<lparr>status = HTTP_200_OK, details = details_cache, data = v\<rparr>"
    using assms(5)
      parse_shop_truthy [of libs "\<lparr>status = HTTP_200_OK, details = details_cache, data = v\<rparr>"]
    by auto
  show ?thesis
    using ne
    by (simp add: g parse_and_cache_fst parse_and_cache_trace parse_and_cache_store events_def
        log_simps write_back_events_no_delete)
qed

theorem get_all_tasks_falsy_cached_value_witness:
  "get_fault no_faults = None
   \<and> store falsy_world (CACHE_KEY default_redis_settings) = Some (''[]'', 21600)
   \<and> ''[]'' \<noteq> []
   \<and> json_loads demo_libs ''[]'' = Inr (JArr [])
   \<and> \<not> truthy (JArr [])
   \<and> fst (get_all_tasks default_redis_settings demo_libs no_faults falsy_world) =
       Inr \<lparr>status = HTTP_200_OK, details = details_source, data = demo_rows\<rparr>
   \<and> events default_redis_settings demo_libs no_faults falsy_world =
       [RedisGet ''tasks:all'', ParseShop, RedisSet ''tasks:all'' dumps_text 21600]
   \<and> store (snd (get_all_tasks default_redis_settings demo_libs no_faults falsy_world))
       ''tasks:all'' = Some (dumps_text, 21600)"
proof -
  have h1: "get_fault no_faults = None"
    by (simp add: no_faults_def)
  have h2: "store falsy_world (CACHE_KEY default_redis_settings) = Some (''[]'', 21600)"
    by (simp add: falsy_world_def default_redis_settings_def)
  have h3: "''[]'' \<noteq> []"
    by simp
  have h4: "json_loads demo_libs ''[]'' = Inr (JArr [])"
    by (simp add: demo_libs_def pandas_text_def dumps_text_def)
  have h5: "\<not> truthy (JArr [])"
    by simp
  have h6: "set_fault no_faults = None"
    by (simp add: no_faults_def)
  from get_all_tasks_falsy_cached_value
    [OF h1 h2 h3 h4 h5,
      where r = "\<lparr>status = HTTP_200_OK, details = details_source, data = demo_rows\<rparr>"
      and s = dumps_text]
  show ?thesis
    using h1 h2 h4 h6
    by (simp add: demo_parse_shop demo_write_back demo_dumps)
      (simp add: default_redis_settings_def)
qed

subsection \<open>C10: the formatting error cannot be raised\<close>

text \<open>
  C10: when \<^verbatim>\<open>read_excel\<close> returns a frame that passes the non-empty check, and pandas
  and \<^verbatim>\<open>json.loads\<close> render it as its records, the records are a non-empty list, which
  Python counts as true, so the source reader does not raise the 400 exception with
  the formatting detail: it returns an envelope.
\<close>

theorem parse_shop_format_error_unreachable:
  assumes "read_excel libs file_path sheet_name = Inr df"
    and "\<not> df_empty df"
    and "pandas_writes_records libs enc df"
  shows "truthy (records enc df)
       \<and> parse_shop libs \<noteq> Inl (HTTPException HTTP_400_BAD_REQUEST detail_format_error)
       \<and> (\<exists>response. parse_shop libs = Inr response)"
  using parse_shop_records [OF assms] assms(2)
  by (simp add: records_def df_empty_def)

theorem parse_shop_format_error_unreachable_witness:
  "read_excel demo_libs file_path sheet_name = Inr demo_frame
   \<and> \<not> df_empty demo_frame
   \<and> pandas_writes_records demo_libs id demo_frame
   \<and> truthy (records id demo_frame)
   \<and> parse_shop demo_libs \<noteq> Inl (HTTPException HTTP_400_BAD_REQUEST detail_format_error)"
proof -
  have h2: "\<not> df_empty demo_frame"
    by (simp add: df_empty_def demo_frame_def)
  from parse_shop_format_error_unreachable [OF demo_read h2 demo_pandas] show ?thesis
    using h2 by (simp add: demo_read demo_pandas)
qed

end
